theory Spec2Isabelle
  imports Main "HOL-Library.Sublist" "HOL-Library.Finite_Map"
begin

section \<open>JSON values and the JavaScript coercions the handlers use\<close>

text \<open>
  A parsed JSON value. A number is kept as its canonical rendering \<open>String(n)\<close>
  (the handlers never compute with numbers, they only test and print them), so
  \<open>0\<close> and \<open>-0\<close> are both \<open>''0''\<close>. An object is a finite map from property
  names to values: a JavaScript object has every key once.
\<close>

datatype json =
    JNull
  | JBool bool
  | JNum string
  | JString string
  | JArr "json list"
  | JObj "(string, json) fmap"

text \<open>
  The renderings of the numbers JSON has no text for. \<open>JSON.parse\<close> yields
  \<open>Infinity\<close> or \<open>-Infinity\<close> for a literal beyond the range of a double (\<open>1e400\<close>).
\<close>

definition non_finite :: "string \<Rightarrow> bool" where
  "non_finite n = (n = ''Infinity'' \<or> n = ''-Infinity'' \<or> n = ''NaN'')"

text \<open>
  What a client parses out of \<open>JSON.stringify(v)\<close>, for a value \<open>v\<close> made of parsed
  JSON: the value itself, but with \<open>null\<close> in the place of every number that is
  not finite.
\<close>

primrec js_sent :: "json \<Rightarrow> json" where
  "js_sent JNull = JNull"
| "js_sent (JBool b) = JBool b"
| "js_sent (JNum n) = (if non_finite n then JNull else JNum n)"
| "js_sent (JString s) = JString s"
| "js_sent (JArr xs) = JArr (map js_sent xs)"
| "js_sent (JObj m) = JObj (fmmap js_sent m)"

text \<open>A value all of whose numbers are finite.\<close>

primrec finite_json :: "json \<Rightarrow> bool" where
  "finite_json JNull = True"
| "finite_json (JBool b) = True"
| "finite_json (JNum n) = (\<not> non_finite n)"
| "finite_json (JString s) = True"
| "finite_json (JArr xs) = list_all id (map finite_json xs)"
| "finite_json (JObj m) = fmpred (\<lambda>k b. b) (fmmap finite_json m)"

text \<open>An \<open>Error\<close> object; only its \<open>message\<close> is read by the handlers.\<close>

datatype js_error = JsError (message: string)

text \<open>Truthiness of a value (\<open>x || y\<close>); \<open>None\<close> stands for \<open>undefined\<close>.\<close>

fun js_truthy :: "json option \<Rightarrow> bool" where
  "js_truthy None = False"
| "js_truthy (Some JNull) = False"
| "js_truthy (Some (JBool b)) = b"
| "js_truthy (Some (JNum n)) = (n \<noteq> ''0'' \<and> n \<noteq> ''NaN'')"
| "js_truthy (Some (JString s)) = (s \<noteq> [])"
| "js_truthy (Some (JArr xs)) = True"
| "js_truthy (Some (JObj m)) = True"

fun join_with :: "string \<Rightarrow> string list \<Rightarrow> string" where
  "join_with sep [] = []"
| "join_with sep [x] = x"
| "join_with sep (x # y # ys) = x @ sep @ join_with sep (y # ys)"

text \<open>
  \<open>String(v)\<close>, which \<open>new Error(v)\<close> applies to its argument: an array is its
  elements joined by commas with \<open>null\<close> printed as nothing, an object is
  \<open>[object Object]\<close>. An object with an own \<open>toString\<close> property (a parsed value,
  never a function) has no primitive value: the conversion throws a \<open>TypeError\<close>,
  here \<open>None\<close>, also from inside an array.
\<close>

fun js_String :: "json \<Rightarrow> string option" where
  "js_String JNull = Some ''null''"
| "js_String (JBool b) = Some (if b then ''true'' else ''false'')"
| "js_String (JNum n) = Some n"
| "js_String (JString s) = Some s"
| "js_String (JArr xs) =
     map_option (join_with '','')
       (those (map (\<lambda>x. case x of JNull \<Rightarrow> Some [] | _ \<Rightarrow> js_String x) xs))"
| "js_String (JObj m) =
     (if ''toString'' |\<in>| fmdom m then None else Some ''[object Object]'')"

text \<open>Decimal rendering of a natural number, as a template literal prints it.\<close>

definition digit_char :: "nat \<Rightarrow> char" where
  "digit_char d = char_of (48 + d)"

function show_nat :: "nat \<Rightarrow> string" where
  "show_nat n = (if n < 10 then [digit_char n] else show_nat (n div 10) @ [digit_char (n mod 10)])"
  by pat_completeness auto
termination
  by (relation "measure id") auto

text \<open>
  The own enumerable properties that \<open>{...v}\<close> copies: those of an object, the
  indices of an array or of a string, none of \<open>null\<close>, a boolean or a number.
\<close>

fun js_spread :: "json \<Rightarrow> (string, json) fmap" where
  "js_spread (JObj m) = m"
| "js_spread (JArr xs) = fmap_of_list (zip (map show_nat [0..<length xs]) xs)"
| "js_spread (JString s) =
     fmap_of_list (zip (map show_nat [0..<length s]) (map (\<lambda>c. JString [c]) s))"
| "js_spread v = fmempty"

section \<open>Requests, responses and effects of the upload route\<close>

text \<open>An uploaded \<open>File\<close>: its name, its declared media type and its bytes.\<close>

record js_file =
  file_name :: string
  file_type :: string
  file_bytes :: string

text \<open>\<open>file.size\<close>: the number of bytes of the file.\<close>

definition file_size :: "js_file \<Rightarrow> nat" where
  "file_size f = length (file_bytes f)"

text \<open>\<open>formData.get("file")\<close> is \<open>null\<close>, a \<open>File\<close> or a string.\<close>

datatype form_value = FormFile js_file | FormString string

text \<open>A response: its status, and the JSON value its body carries.\<close>

record response =
  status :: nat
  body :: json

text \<open>
  \<open>NextResponse.json(v, {status})\<close>: the body is \<open>JSON.stringify(v)\<close>, so the
  response carries \<open>js_sent v\<close>. The status is 200 when none is given.
\<close>

definition NextResponse_json :: "json \<Rightarrow> nat \<Rightarrow> response" where
  "NextResponse_json v st = \<lparr>status = st, body = js_sent v\<rparr>"

text \<open>What a handler does to the world, in the order it does it.\<close>

datatype effect =
    ExistsSync string
  | MkdirSync string
  | WriteFileSync string string
  | Fetch string js_file
  | ConsoleError string

text \<open>An awaited handler: the promise rejects (\<open>Inl\<close>) or resolves to a response.\<close>

type_synonym outcome = "(js_error + response) \<times> effect list"

text \<open>The same for an object literal, written as the list of its properties.\<close>

definition json_response :: "nat \<Rightarrow> (string \<times> json) list \<Rightarrow> response" where
  "json_response st kvs = NextResponse_json (JObj (fmap_of_list kvs)) st"

text \<open>\<open>!file\<close>: \<open>null\<close> and the empty string are falsy, a \<open>File\<close> is an object.\<close>

fun no_file :: "form_value option \<Rightarrow> bool" where
  "no_file None = True"
| "no_file (Some (FormString s)) = (s = [])"
| "no_file (Some (FormFile f)) = False"

text \<open>\<open>s.replace(/[:.]/g, "-")\<close>\<close>

definition replace_colon_dot :: "string \<Rightarrow> string" where
  "replace_colon_dot s = map (\<lambda>c. if c = CHR '':'' \<or> c = CHR ''.'' then CHR ''-'' else c) s"

subsection \<open>The storage variant\<close>

text \<open>
  Everything the storage handler reads from outside: the outcome of
  \<open>request.formData()\<close> (a rejection message, or the \<open>file\<close> field), the working
  directory, whether the upload directory exists, whether \<open>mkdirSync\<close>,
  \<open>file.arrayBuffer()\<close> and \<open>writeFileSync\<close> throw (\<open>Some\<close> message), and
  \<open>new Date().toISOString()\<close>.
\<close>

record storage_world =
  sw_form :: "string + form_value option"
  sw_cwd :: string
  sw_dir_exists :: bool
  sw_mkdir :: "string option"
  sw_now :: string
  sw_read :: "string option"
  sw_write :: "string option"

text \<open>A path with every run of slashes made one slash, as \<open>path.join\<close> leaves it.\<close>

fun collapse_slashes :: "string \<Rightarrow> string" where
  "collapse_slashes (a # b # s) =
     (if a = CHR ''/'' \<and> b = CHR ''/'' then collapse_slashes (b # s)
      else a # collapse_slashes (b # s))"
| "collapse_slashes s = s"

text \<open>
  \<open>path.join(process.cwd(), "public", "recordings")\<close> on a POSIX host:
  \<open>process.cwd()\<close> is an absolute path without \<open>.\<close> or \<open>..\<close> segments, so joining
  with slashes and collapsing them is all \<open>path.join\<close> does; for the root
  directory \<open>/\<close> the result is \<open>/public/recordings\<close>.
\<close>

definition uploadDir :: "string \<Rightarrow> string" where
  "uploadDir cwd = collapse_slashes (cwd @ ''/public/recordings'')"

definition storage_fileName :: "string \<Rightarrow> string" where
  "storage_fileName now = replace_colon_dot now @ ''.webm''"

text \<open>
  The part of the storage handler after both validations (lines 19 to 40). The
  file name is made of a \<open>toISOString()\<close>, which has no slash, and the directory
  does not end in one, so \<open>path.join(uploadDir, fileName)\<close> puts one slash
  between them.
\<close>

definition storage_save :: "storage_world \<Rightarrow> js_file \<Rightarrow> outcome" where
  "storage_save w f =
     (let dir = uploadDir (sw_cwd w);
          fileName = storage_fileName (sw_now w);
          filePath = dir @ ''/'' @ fileName
      in case (if sw_dir_exists w then None else sw_mkdir w) of
           Some m \<Rightarrow> (Inl (JsError m), [ExistsSync dir, MkdirSync dir])
         | None \<Rightarrow>
            (let made = ExistsSync dir # (if sw_dir_exists w then [] else [MkdirSync dir])
             in case sw_read w of
                  Some m \<Rightarrow> (Inl (JsError m), made)
                | None \<Rightarrow>
                   (case sw_write w of
                      Some m \<Rightarrow>
                        (Inl (JsError m), made @ [WriteFileSync filePath (file_bytes f)])
                    | None \<Rightarrow>
                        (Inr (json_response 200
                           [(''success'', JBool True),
                            (''message'', JString ''File uploaded successfully''),
                            (''fileName'', JString fileName),
                            (''fileUrl'', JString (''/recordings/'' @ fileName))]),
                         made @ [WriteFileSync filePath (file_bytes f)]))))"

text \<open>The \<open>try\<close> block of the storage handler.\<close>

definition POST_storage_try :: "storage_world \<Rightarrow> outcome" where
  "POST_storage_try w =
     (case sw_form w of
        Inl m \<Rightarrow> (Inl (JsError m), [])
      | Inr entry \<Rightarrow>
          if no_file entry then
            (Inr (json_response 400 [(''error'', JString ''No file uploaded'')]), [])
          else
            (case entry of
               Some (FormFile f) \<Rightarrow>
                 if \<not> prefix ''audio/'' (file_type f) then
                   (Inr (json_response 400 [(''error'', JString ''Invalid file type'')]), [])
                 else storage_save w f
             | _ \<Rightarrow>
                 (Inl (JsError
                    ''Cannot read properties of undefined (reading 'startsWith')''), [])))"

text \<open>The handler: the \<open>catch\<close> clause logs and answers 500 for whatever was thrown.\<close>

definition POST_storage :: "storage_world \<Rightarrow> outcome" where
  "POST_storage w =
     (case POST_storage_try w of
        (Inl e, effs) \<Rightarrow>
          (Inr (json_response 500 [(''error'', JString ''Upload failed'')]),
           effs @ [ConsoleError ''Upload error:''])
      | (Inr r, effs) \<Rightarrow> (Inr r, effs))"

subsection \<open>The transcription variant\<close>

definition PYTHON_API_URL :: string where
  "PYTHON_API_URL = ''http://localhost:8502/transcribe''"

definition maxSize :: nat where
  "maxSize = 25 * 1024 * 1024"

text \<open>
  \<open>response.json()\<close> rejects with a \<open>SyntaxError\<close> message on a malformed body, or
  yields the parsed value. \<open>fetch\<close> rejects with a message, or yields the status
  and the body of the external service's response.
\<close>

datatype parsed_body = Malformed string | Parsed json

datatype fetch_outcome = NetworkError string | HttpResponse nat parsed_body

record relay_world =
  rw_form :: "string + form_value option"
  rw_fetch :: fetch_outcome

text \<open>\<open>response.ok\<close>\<close>

definition ok :: "nat \<Rightarrow> bool" where
  "ok st = (200 \<le> st \<and> st \<le> 299)"

text \<open>
  \<open>v.k\<close> for a property name \<open>k\<close> that is neither an index nor \<open>length\<close> (the
  handlers and the page read \<open>detail\<close>, \<open>success\<close> and \<open>error\<close>): the property of an
  object, \<open>undefined\<close> on any other value but \<open>null\<close>, where the read itself
  throws and the caller says so.
\<close>

fun js_prop :: "json \<Rightarrow> string \<Rightarrow> json option" where
  "js_prop (JObj m) k = fmlookup m k"
| "js_prop v k = None"

text \<open>Lines 89 to 92: what is thrown for a response that is not \<open>ok\<close>.\<close>

definition relay_failure :: "nat \<Rightarrow> parsed_body \<Rightarrow> js_error" where
  "relay_failure st b =
     (let errorData = (case b of Malformed m \<Rightarrow> JObj fmempty | Parsed v \<Rightarrow> v)
      in case errorData of
           JNull \<Rightarrow> JsError ''Cannot read properties of null (reading 'detail')''
         | _ \<Rightarrow>
            (if js_truthy (js_prop errorData ''detail'')
             then (case js_String (the (js_prop errorData ''detail'')) of
                     Some msg \<Rightarrow> JsError msg
                   | None \<Rightarrow> JsError ''Cannot convert object to primitive value'')
             else JsError (''Python API error: '' @ show_nat st)))"

text \<open>Lines 96 to 100: \<open>{success: true, ...transcriptionResult, message: "..."}\<close>.\<close>

definition relay_envelope :: "json \<Rightarrow> (string, json) fmap" where
  "relay_envelope transcriptionResult =
     fmupd ''message'' (JString ''File transcribed successfully'')
       (fmupd ''success'' (JBool True) fmempty ++\<^sub>f js_spread transcriptionResult)"

text \<open>Lines 80 to 100: the forward to the external service and the relay of its answer.\<close>

definition relay_forward :: "relay_world \<Rightarrow> js_file \<Rightarrow> outcome" where
  "relay_forward w f =
     (case rw_fetch w of
        NetworkError m \<Rightarrow> (Inl (JsError m), [Fetch PYTHON_API_URL f])
      | HttpResponse st b \<Rightarrow>
          if \<not> ok st then (Inl (relay_failure st b), [Fetch PYTHON_API_URL f])
          else
            (case b of
               Malformed m \<Rightarrow> (Inl (JsError m), [Fetch PYTHON_API_URL f])
             | Parsed v \<Rightarrow>
                 (Inr (NextResponse_json (JObj (relay_envelope v)) 200),
                  [Fetch PYTHON_API_URL f])))"

text \<open>The \<open>try\<close> block of the transcription handler.\<close>

definition POST_transcribe_try :: "relay_world \<Rightarrow> outcome" where
  "POST_transcribe_try w =
     (case rw_form w of
        Inl m \<Rightarrow> (Inl (JsError m), [])
      | Inr entry \<Rightarrow>
          if no_file entry then
            (Inr (json_response 400
               [(''success'', JBool False), (''error'', JString ''No file uploaded'')]), [])
          else
            (case entry of
               Some (FormFile f) \<Rightarrow>
                 if \<not> prefix ''audio/'' (file_type f) then
                   (Inr (json_response 400
                      [(''success'', JBool False),
                       (''error'', JString ''Invalid file type. Only audio files are allowed.'')]),
                    [])
                 else if file_size f > maxSize then
                   (Inr (json_response 400
                      [(''success'', JBool False),
                       (''error'', JString ''File too large. Maximum size is 25MB.'')]),
                    [])
                 else relay_forward w f
             | _ \<Rightarrow>
                 (Inl (JsError
                    ''Cannot read properties of undefined (reading 'startsWith')''), [])))"

text \<open>\<open>error.message || "Transcription failed"\<close>\<close>

definition error_text :: "js_error \<Rightarrow> string" where
  "error_text e = (if message e = [] then ''Transcription failed'' else message e)"

text \<open>The handler with its \<open>catch\<close> clause (lines 102 to 113).\<close>

definition POST_transcribe :: "relay_world \<Rightarrow> outcome" where
  "POST_transcribe w =
     (case POST_transcribe_try w of
        (Inl e, effs) \<Rightarrow>
          (Inr (json_response 500
             [(''success'', JBool False),
              (''error'', JString (error_text e)),
              (''message'', JString ''Failed to process audio file'')]),
           effs @ [ConsoleError ''Upload/Transcription error:''])
      | (Inr r, effs) \<Rightarrow> (Inr r, effs))"

subsection \<open>Failures of the external service, and sample requests\<close>

text \<open>
  The three downstream failures of the relay: \<open>fetch\<close> rejects, the body of a
  response does not parse where the handler needs it, or the status is outside
  200..299.
\<close>

fun downstream_failure :: "fetch_outcome \<Rightarrow> bool" where
  "downstream_failure (NetworkError m) = True"
| "downstream_failure (HttpResponse st (Malformed m)) = True"
| "downstream_failure (HttpResponse st (Parsed v)) = (\<not> ok st)"

definition text_file :: js_file where
  "text_file = \<lparr>file_name = ''notes.txt'', file_type = ''text/plain'',
     file_bytes = ''hello, world''\<rparr>"

text \<open>An audio file of 30 000 000 bytes.\<close>

definition big_audio :: js_file where
  "big_audio = \<lparr>file_name = ''talk.mp3'', file_type = ''audio/mpeg'',
     file_bytes = replicate 30000000 (CHR ''a'')\<rparr>"

definition small_audio :: js_file where
  "small_audio = \<lparr>file_name = ''song.mp3'', file_type = ''audio/mpeg'',
     file_bytes = ''ID3''\<rparr>"

text \<open>A storage host where nothing fails and the upload directory exists.\<close>

definition storage_ready :: "form_value option \<Rightarrow> storage_world" where
  "storage_ready entry = \<lparr>sw_form = Inr entry, sw_cwd = ''/app'', sw_dir_exists = True,
     sw_mkdir = None, sw_now = ''2025-01-02T03:04:05.678Z'', sw_read = None, sw_write = None\<rparr>"

definition relay_ready :: "form_value option \<Rightarrow> fetch_outcome \<Rightarrow> relay_world" where
  "relay_ready entry res = \<lparr>rw_form = Inr entry, rw_fetch = res\<rparr>"

text \<open>Two bodies of the external service: \<open>{text: "hello"}\<close>, and the same with a
  \<open>success: false\<close> of its own.\<close>

definition text_hello :: "(string, json) fmap" where
  "text_hello = fmap_of_list [(''text'', JString ''hello'')]"

definition hello_but_failed :: "(string, json) fmap" where
  "hello_but_failed = fmap_of_list [(''text'', JString ''hello''), (''success'', JBool False)]"

text \<open>The body \<open>{"text": 1e400}\<close> as \<open>response.json()\<close> yields it.\<close>

definition text_overflow :: "(string, json) fmap" where
  "text_overflow = fmap_of_list [(''text'', JNum ''Infinity'')]"

text \<open>A storage host where nothing fails, with any working directory, any state of
  the upload directory and any time.\<close>

definition storage_works :: "storage_world \<Rightarrow> bool" where
  "storage_works w =
     ((sw_dir_exists w \<or> sw_mkdir w = None) \<and> sw_read w = None \<and> sw_write w = None)"

subsection \<open>Reading a response\<close>

text \<open>The \<open>success\<close> property of a response body, if it is an object that has one.\<close>

definition success_field :: "response \<Rightarrow> json option" where
  "success_field r = (case body r of JObj m \<Rightarrow> fmlookup m ''success'' | _ \<Rightarrow> None)"

text \<open>Any property of a response body.\<close>

definition body_field :: "response \<Rightarrow> string \<Rightarrow> json option" where
  "body_field r k = (case body r of JObj m \<Rightarrow> fmlookup m k | _ \<Rightarrow> None)"

text \<open>The body is an object whose \<open>error\<close> property is a string.\<close>

definition error_string :: "response \<Rightarrow> bool" where
  "error_string r =
     (case body r of
        JObj m \<Rightarrow> (case fmlookup m ''error'' of Some (JString s) \<Rightarrow> True | _ \<Rightarrow> False)
      | _ \<Rightarrow> False)"

text \<open>The \<open>try\<close> block ended by a throw.\<close>

definition threw :: "outcome \<Rightarrow> bool" where
  "threw out = (case fst out of Inl e \<Rightarrow> True | Inr r \<Rightarrow> False)"

section \<open>File names chosen by the page\<close>

text \<open>
  \<open>generateDateFilename(ext)\<close> of the page component, with the current time's
  \<open>toISOString()\<close> passed in. Every call site gives \<open>ext\<close>.
\<close>

definition generateDateFilename :: "string \<Rightarrow> string \<Rightarrow> string" where
  "generateDateFilename now ext = replace_colon_dot now @ ext"

text \<open>\<open>s.lastIndexOf(c)\<close>: the last position of \<open>c\<close>, or -1.\<close>

fun lastIndexOf :: "string \<Rightarrow> char \<Rightarrow> int" where
  "lastIndexOf [] c = - 1"
| "lastIndexOf (x # xs) c =
     (let r = lastIndexOf xs c in if 0 \<le> r then r + 1 else if x = c then 0 else - 1)"

text \<open>\<open>s.substring(i)\<close>; a negative start counts as 0.\<close>

definition substring :: "string \<Rightarrow> int \<Rightarrow> string" where
  "substring s i = drop (nat i) s"

text \<open>The extension \<open>handleFileUpload\<close> and \<open>handleMp3Upload\<close> compute (lines 88 to 90).\<close>

definition upload_ext :: "string \<Rightarrow> string" where
  "upload_ext name =
     (if CHR ''.'' \<in> set name then substring name (lastIndexOf name (CHR ''.'')) else ''.mp3'')"

section \<open>The health probe\<close>

text \<open>
  What the one request of \<open>healthcheck.js\<close> can emit: a response with its status
  code, an \<open>error\<close>, or \<open>timeout\<close>. The \<open>timeout: 2000\<close> option makes Node emit
  \<open>timeout\<close> when the socket has been idle for two seconds; the event only
  notifies, the request goes on until a listener destroys it.
\<close>

datatype request_event = Response nat | RequestError string | Timeout

text \<open>The options of the request, and the requests the script makes: \<open>http.request\<close>
  is called once and ended once.\<close>

record request_options =
  host :: string
  port :: nat
  timeout :: nat
  path :: string
  http_method :: string

definition options :: request_options where
  "options = \<lparr>host = ''localhost'', port = 3000, timeout = 2000, path = ''/'', http_method = ''GET''\<rparr>"

definition probe_requests :: "request_options list" where
  "probe_requests = [options]"

text \<open>
  The exit code of the listener registered for an event, if there is one: the
  response callback (lines 11 to 18) and the \<open>error\<close> listener (lines 20 to 23).
  No listener is registered for \<open>timeout\<close>.
\<close>

fun on_event :: "request_event \<Rightarrow> nat option" where
  "on_event (Response statusCode) = Some (if statusCode = 200 then 0 else 1)"
| "on_event (RequestError err) = Some 1"
| "on_event Timeout = None"

text \<open>
  The probe run against the events of its request, in order: \<open>process.exit\<close> ends
  the run at the first event that has a listener; \<open>None\<close> is a probe that has not
  exited when the events are used up.
\<close>

fun probe :: "request_event list \<Rightarrow> nat option" where
  "probe [] = None"
| "probe (e # es) = (case on_event e of Some code \<Rightarrow> Some code | None \<Rightarrow> probe es)"

section \<open>The page component\<close>

text \<open>\<open>MediaRecorder.state\<close>\<close>

datatype recorder_state = Inactive | Recording | Paused

text \<open>A call of the upload route that has not been answered yet, with the name
  given to the multipart part: from \<open>uploadRecording\<close> or from \<open>handleFileUpload\<close>.\<close>

datatype relay_call = RecordingUpload string | FileUpload string

text \<open>
  The state of \<open>VoicePage\<close>: its \<open>useState\<close> values, its refs, and the part of the
  browser its handlers act on. Recorders, streams, timers and object URLs are
  numbered in the order they are created. \<open>recorder\<close> is the state of each
  \<open>MediaRecorder\<close>; \<open>live_streams\<close> are the microphone streams whose tracks have not
  been stopped; \<open>timers\<close> are the intervals set and not cleared;
  \<open>pending_starts\<close> counts the calls of \<open>startRecording\<close> suspended at
  \<open>await getUserMedia\<close>; \<open>in_flight\<close> are the unanswered calls of the upload
  route. A blob is named by the recorder whose \<open>stop\<close> produced it. Playback
  (\<open>playing\<close>, \<open>audioRef\<close>) and the bytes of the chunks do not influence any of
  these transitions and are left out.
\<close>

record page =
  isRecording :: bool
  isPaused :: bool
  recorderSupported :: bool
  audioURL :: "nat option"
  duration :: nat
  uploadedFileName :: "string option"
  transcription :: "json option"
  isTranscribing :: bool
  transcriptionError :: "json option"
  dragOver :: bool
  mediaRecorderRef :: "nat option"
  streamRef :: "nat option"
  timerRef :: "nat option"
  blobRef :: "nat option"
  recorder :: "nat \<Rightarrow> recorder_state"
  next_recorder :: nat
  live_streams :: "nat set"
  next_stream :: nat
  timers :: "nat set"
  next_timer :: nat
  next_url :: nat
  pending_starts :: nat
  in_flight :: "relay_call list"

definition initial_page :: page where
  "initial_page = \<lparr>isRecording = False, isPaused = False, recorderSupported = True,
     audioURL = None, duration = 0, uploadedFileName = None, transcription = None,
     isTranscribing = False, transcriptionError = None, dragOver = False,
     mediaRecorderRef = None, streamRef = None, timerRef = None, blobRef = None,
     recorder = (\<lambda>r. Inactive), next_recorder = 0, live_streams = {}, next_stream = 0,
     timers = {}, next_timer = 0, next_url = 0, pending_starts = 0, in_flight = []\<rparr>"

definition maxDuration :: nat where
  "maxDuration = 5 * 60"

definition maxBytes :: nat where
  "maxBytes = 25 * 1024 * 1024"

text \<open>\<open>clearInterval(timerRef.current)\<close>\<close>

definition clearInterval :: "page \<Rightarrow> page" where
  "clearInterval s = s\<lparr>timers := timers s - set_option (timerRef s)\<rparr>"

text \<open>
  The cleanup of the effect on \<open>[audioURL]\<close> (lines 32 to 39), which React runs
  when \<open>audioURL\<close> changes: it stops the tracks of the current stream and clears
  the current timer, and leaves both refs as they are.
\<close>

definition audioURL_cleanup :: "page \<Rightarrow> page" where
  "audioURL_cleanup s =
     clearInterval (s\<lparr>live_streams := live_streams s - set_option (streamRef s)\<rparr>)"

text \<open>\<open>setAudioURL(URL.createObjectURL(...))\<close> followed by that cleanup.\<close>

definition setAudioURL_fresh :: "page \<Rightarrow> page" where
  "setAudioURL_fresh s =
     audioURL_cleanup (s\<lparr>audioURL := Some (next_url s), next_url := Suc (next_url s)\<rparr>)"

text \<open>\<open>mr.onstop\<close> (lines 152 to 163), for the recorder \<open>r\<close> that stopped.\<close>

definition onstop :: "nat \<Rightarrow> page \<Rightarrow> page" where
  "onstop r s =
     setAudioURL_fresh (clearInterval (s\<lparr>blobRef := Some r, isRecording := False,
       isPaused := False\<rparr>))"

text \<open>
  \<open>stopRecording\<close> (lines 207 to 216): stop the current recorder if it is
  recording or paused, then stop the tracks of the current stream and forget it.
  The browser fires the recorder's \<open>stop\<close> event in a task of its own, right after
  this one; the model runs \<open>onstop\<close> at the end of the same step.
\<close>

definition stopRecording :: "page \<Rightarrow> page" where
  "stopRecording s =
     (let stopped =
            (case mediaRecorderRef s of
               Some r \<Rightarrow> if recorder s r = Recording \<or> recorder s r = Paused then Some r else None
             | None \<Rightarrow> None);
          s1 = (case stopped of
                  Some r \<Rightarrow> s\<lparr>recorder := (recorder s)(r := Inactive)\<rparr>
                | None \<Rightarrow> s);
          s2 = s1\<lparr>live_streams := live_streams s1 - set_option (streamRef s1), streamRef := None\<rparr>
      in case stopped of Some r \<Rightarrow> onstop r s2 | None \<Rightarrow> s2)"

text \<open>
  The callback of the interval (lines 170 to 176 and 197 to 203): the updater
  computes \<open>next\<close>, calls \<open>stopRecording\<close> when \<open>next\<close> has reached \<open>maxDuration\<close>,
  and returns \<open>next\<close> as the new duration.
\<close>

definition tick :: "page \<Rightarrow> page" where
  "tick s =
     (let next = duration s + 1;
          s1 = (if next \<ge> maxDuration then stopRecording s else s)
      in s1\<lparr>duration := next\<rparr>)"

text \<open>\<open>setInterval\<close>: a new timer, kept in \<open>timerRef\<close> without a look at what the
  ref held.\<close>

definition setInterval :: "page \<Rightarrow> page" where
  "setInterval s =
     s\<lparr>timerRef := Some (next_timer s), timers := insert (next_timer s) (timers s),
       next_timer := Suc (next_timer s)\<rparr>"

text \<open>\<open>startRecording\<close> up to its \<open>await\<close> (lines 126 to 128).\<close>

definition startRecording_call :: "page \<Rightarrow> page" where
  "startRecording_call s = s\<lparr>pending_starts := Suc (pending_starts s)\<rparr>"

text \<open>
  \<open>startRecording\<close> after \<open>getUserMedia\<close> has resolved (lines 129 to 176): the
  stream and a new recorder go into the refs, the recorder starts, the duration
  is reset and a new interval is set. When \<open>isRecording\<close> turns true the effect of
  lines 42 to 47 clears the transcription.
\<close>

definition startRecording_granted :: "page \<Rightarrow> page" where
  "startRecording_granted s =
     (let s1 = s\<lparr>pending_starts := pending_starts s - 1,
                 streamRef := Some (next_stream s),
                 live_streams := insert (next_stream s) (live_streams s),
                 next_stream := Suc (next_stream s),
                 mediaRecorderRef := Some (next_recorder s),
                 recorder := (recorder s)(next_recorder s := Recording),
                 next_recorder := Suc (next_recorder s),
                 isRecording := True, isPaused := False, duration := 0\<rparr>;
          s2 = (if isRecording s then s1
                else s1\<lparr>transcription := None, transcriptionError := None\<rparr>)
      in setInterval s2)"

text \<open>\<open>startRecording\<close> when \<open>getUserMedia\<close> rejects (lines 177 to 180).\<close>

definition startRecording_denied :: "page \<Rightarrow> page" where
  "startRecording_denied s =
     s\<lparr>pending_starts := pending_starts s - 1, recorderSupported := False\<rparr>"

definition pauseRecording :: "page \<Rightarrow> page" where
  "pauseRecording s =
     (case mediaRecorderRef s of
        Some r \<Rightarrow>
          if recorder s r = Recording
          then clearInterval (s\<lparr>recorder := (recorder s)(r := Paused), isPaused := True\<rparr>)
          else s
      | None \<Rightarrow> s)"

definition resumeRecording :: "page \<Rightarrow> page" where
  "resumeRecording s =
     (case mediaRecorderRef s of
        Some r \<Rightarrow>
          if recorder s r = Paused
          then setInterval (s\<lparr>recorder := (recorder s)(r := Recording), isPaused := False\<rparr>)
          else s
      | None \<Rightarrow> s)"

text \<open>
  \<open>handleFileUpload\<close> up to its \<open>fetch\<close> (lines 75 to 106), for a file that is
  there; \<open>now\<close> is the timestamp \<open>generateDateFilename\<close> reads.
\<close>

definition handleFileUpload :: "js_file \<Rightarrow> string \<Rightarrow> page \<Rightarrow> page" where
  "handleFileUpload f now s =
     (if file_size f > maxBytes then s
      else
        (let newName = generateDateFilename now (upload_ext (file_name f));
             s1 = s\<lparr>isTranscribing := True, transcriptionError := None, transcription := None\<rparr>;
             s2 = setAudioURL_fresh s1
         in s2\<lparr>uploadedFileName := Some (file_name f), duration := 0,
                in_flight := in_flight s2 @ [FileUpload newName]\<rparr>))"

text \<open>\<open>handleDrop\<close> (lines 60 to 73)\<close>

definition handleDrop :: "js_file list \<Rightarrow> string \<Rightarrow> page \<Rightarrow> page" where
  "handleDrop files now s =
     (let s1 = s\<lparr>dragOver := False\<rparr>
      in case files of
           [] \<Rightarrow> s1
         | f # rest \<Rightarrow>
             if prefix ''audio/'' (file_type f) then handleFileUpload f now s1
             else s1\<lparr>transcriptionError :=
                      Some (JString ''Please drop an audio file (MP3, WAV, etc.)'')\<rparr>)"

text \<open>\<open>uploadRecording\<close> up to its \<open>fetch\<close> (lines 253 to 273)\<close>

definition uploadRecording :: "string \<Rightarrow> page \<Rightarrow> page" where
  "uploadRecording now s =
     (if blobRef s = None then s
      else s\<lparr>isTranscribing := True, transcriptionError := None, transcription := None,
             in_flight := in_flight s @ [RecordingUpload (generateDateFilename now ''.mp3'')]\<rparr>)"

text \<open>What comes back for a call: the parsed body of the response, or a rejection
  of \<open>fetch\<close> or of \<open>res.json()\<close>.\<close>

datatype relay_answer = Answer json | Failed

text \<open>\<open>data.error || fallback\<close>\<close>

definition error_or :: "json \<Rightarrow> string \<Rightarrow> json" where
  "error_or data fallback =
     (if js_truthy (js_prop data ''error'') then the (js_prop data ''error'')
      else JString fallback)"

text \<open>
  The rest of \<open>handleFileUpload\<close> and \<open>uploadRecording\<close> (lines 108 to 122 and 275
  to 290) for the call at position \<open>i\<close>: the \<open>try\<close> body, the \<open>catch\<close> clause (also
  reached when \<open>data\<close> is \<open>null\<close> and \<open>data.success\<close> throws) and the \<open>finally\<close>
  clause.
\<close>

definition relay_answered :: "nat \<Rightarrow> relay_answer \<Rightarrow> page \<Rightarrow> page" where
  "relay_answered i a s =
     (let call = in_flight s ! i;
          s1 = s\<lparr>in_flight := take i (in_flight s) @ drop (Suc i) (in_flight s)\<rparr>;
          caught = s1\<lparr>transcriptionError :=
                      Some (JString ''Failed to connect to transcription service'')\<rparr>;
          s2 = (case a of
                  Failed \<Rightarrow> caught
                | Answer JNull \<Rightarrow> caught
                | Answer data \<Rightarrow>
                    if js_truthy (js_prop data ''success'') then
                      (case call of
                         RecordingUpload fileName \<Rightarrow>
                           s1\<lparr>transcription := Some data, uploadedFileName := Some fileName\<rparr>
                       | FileUpload newName \<Rightarrow> s1\<lparr>transcription := Some data\<rparr>)
                    else s1\<lparr>transcriptionError := Some (error_or data ''Transcription failed'')\<rparr>)
      in s2\<lparr>isTranscribing := False\<rparr>)"

text \<open>\<open>clearAll\<close> (lines 302 to 313)\<close>

definition clearAll :: "page \<Rightarrow> page" where
  "clearAll s =
     (audioURL_cleanup (s\<lparr>audioURL := None\<rparr>))
       \<lparr>uploadedFileName := None, transcription := None, transcriptionError := None,
        duration := 0, blobRef := None\<rparr>"

text \<open>
  What can happen to the page: a click on one of its buttons, the answer of the
  microphone prompt to the oldest suspended \<open>startRecording\<close>, an interval firing,
  a file picked or dropped, the answer to a call of the upload route.
\<close>

datatype event =
    ClickStart
  | MicGranted
  | MicDenied
  | ClickPause
  | ClickResume
  | ClickStop
  | Tick nat
  | ClickTranscribe string
  | FileChosen js_file string
  | Drop "js_file list" string
  | RelayAnswered nat relay_answer
  | ClickClear

text \<open>
  One event. A button does nothing while its \<open>disabled\<close> attribute holds (lines
  404 to 419), the file input does nothing while \<open>disabled={isTranscribing}\<close>
  holds (line 370), the Clear button exists only with an \<open>audioURL\<close> (line 331);
  the Stop button and the drop zone have no condition. An interval fires only
  while it is set.
\<close>

fun step :: "event \<Rightarrow> page \<Rightarrow> page" where
  "step ClickStart s = (if isRecording s \<and> \<not> isPaused s then s else startRecording_call s)"
| "step MicGranted s = (if pending_starts s = 0 then s else startRecording_granted s)"
| "step MicDenied s = (if pending_starts s = 0 then s else startRecording_denied s)"
| "step ClickPause s = (if isRecording s \<and> \<not> isPaused s then pauseRecording s else s)"
| "step ClickResume s = (if isRecording s \<and> isPaused s then resumeRecording s else s)"
| "step ClickStop s = stopRecording s"
| "step (Tick t) s = (if t \<in> timers s then tick s else s)"
| "step (ClickTranscribe now) s =
     (if blobRef s = None \<or> isTranscribing s then s else uploadRecording now s)"
| "step (FileChosen f now) s = (if isTranscribing s then s else handleFileUpload f now s)"
| "step (Drop files now) s = handleDrop files now s"
| "step (RelayAnswered i a) s = (if i < length (in_flight s) then relay_answered i a s else s)"
| "step ClickClear s = (if audioURL s = None then s else clearAll s)"

text \<open>The page after a sequence of events, oldest first.\<close>

fun run :: "event list \<Rightarrow> page \<Rightarrow> page" where
  "run [] s = s"
| "run (e # es) s = run es (step e s)"

text \<open>
  Two clicks on Start before the microphone answers, then both answers: two
  intervals (0 and 1) are set. Both fire once a second.
\<close>

definition double_start :: "event list" where
  "double_start = [ClickStart, ClickStart, MicGranted, MicGranted]"

definition both_tick :: "nat \<Rightarrow> event list" where
  "both_tick n = concat (replicate n [Tick 0, Tick 1])"

text \<open>
  The bound on the elapsed time, together with what keeps it: only the interval
  in \<open>timerRef\<close> is set, an interval is set only while the current recorder
  records, and a current recorder that has not stopped has an elapsed time
  below the ceiling.
\<close>

definition timer_inv :: "page \<Rightarrow> bool" where
  "timer_inv s =
     (duration s \<le> maxDuration
      \<and> timers s \<subseteq> set_option (timerRef s)
      \<and> (timers s = {} \<or> (\<exists>r. mediaRecorderRef s = Some r \<and> recorder s r = Recording))
      \<and> (duration s < maxDuration
          \<or> (\<forall>r. mediaRecorderRef s = Some r \<longrightarrow> recorder s r = Inactive)))"

text \<open>A sequence of events in which the microphone never answers while an interval
  is set.\<close>

fun orderly :: "event list \<Rightarrow> page \<Rightarrow> bool" where
  "orderly [] s = True"
| "orderly (e # es) s = ((e \<noteq> MicGranted \<or> timers s = {}) \<and> orderly es (step e s))"

text \<open>One recording with a pause in it, stopped by hand.\<close>

definition one_session :: "event list" where
  "one_session = [ClickStart, MicGranted, Tick 0, Tick 0, ClickPause, ClickResume, Tick 1, ClickStop]"

text \<open>The timestamps of two uploads.\<close>

definition first_time :: string where
  "first_time = ''2025-01-02T03:04:05.678Z''"

definition second_time :: string where
  "second_time = ''2025-01-02T03:04:06.000Z''"

text \<open>The page with one audio file picked and its call unanswered.\<close>

definition awaiting_answer :: page where
  "awaiting_answer = run [FileChosen small_audio first_time] initial_page"

section \<open>Properties of the upload route\<close>

text \<open>
  C3. A request to either handler that carries a file whose declared media type
  does not start with \<open>audio/\<close> is answered with status 400 and a validation
  message, and the handler has done nothing else: no file system access, no
  forward to the transcription endpoint, no log line.
\<close>

theorem non_audio_rejected_without_effects:
  assumes "\<not> prefix ''audio/'' (file_type f)"
    and "sw_form sw = Inr (Some (FormFile f))"
    and "rw_form rw = Inr (Some (FormFile f))"
  shows "POST_storage sw =
           (Inr (json_response 400 [(''error'', JString ''Invalid file type'')]), [])
       \<and> POST_transcribe rw =
           (Inr (json_response 400
              [(''success'', JBool False),
               (''error'', JString ''Invalid file type. Only audio files are allowed.'')]), [])"
  using assms
  by (simp add: POST_storage_def POST_storage_try_def POST_transcribe_def
      POST_transcribe_try_def)

theorem non_audio_rejected_witness:
  "\<not> prefix ''audio/'' (file_type text_file)
   \<and> POST_storage (storage_ready (Some (FormFile text_file))) =
           (Inr (json_response 400 [(''error'', JString ''Invalid file type'')]), [])
   \<and> POST_transcribe (relay_ready (Some (FormFile text_file)) (NetworkError ''fetch failed'')) =
           (Inr (json_response 400
              [(''success'', JBool False),
               (''error'', JString ''Invalid file type. Only audio files are allowed.'')]), [])"
  using non_audio_rejected_without_effects [of text_file "storage_ready (Some (FormFile text_file))"
      "relay_ready (Some (FormFile text_file)) (NetworkError ''fetch failed'')"]
  by (simp add: text_file_def storage_ready_def relay_ready_def)

lemma sent_finite: "finite_json v \<Longrightarrow> js_sent v = v"
proof (induction v)
  case (JArr xs)
  then show ?case by (auto simp add: list_all_iff intro: map_idI)
next
  case (JObj m)
  have "fmmap js_sent m = m"
  proof (rule fmap_ext)
    fix k
    show "fmlookup (fmmap js_sent m) k = fmlookup m k"
    proof (cases "fmlookup m k")
      case None
      then show ?thesis by simp
    next
      case (Some v)
      then have "v \<in> fmran' m" by (auto intro: fmran'I)
      moreover from JObj.prems Some have "finite_json v"
        by (auto simp add: fmpred_iff)
      ultimately show ?thesis using JObj.IH Some by simp
    qed
  qed
  then show ?case by simp
qed simp_all

lemma body_field_sent:
  "body_field (NextResponse_json (JObj e) st) k = map_option js_sent (fmlookup e k)"
  by (simp add: body_field_def NextResponse_json_def)

lemma success_field_sent:
  "success_field (NextResponse_json (JObj e) st) = map_option js_sent (fmlookup e ''success'')"
  by (simp add: success_field_def NextResponse_json_def)

text \<open>
  C2, as stated, fails for the storage variant, which has no size check: an audio
  file of 30 000 000 bytes, above both the 25 MB and the 10 MB ceiling, is
  written to disk in full and answered with status 200.
\<close>

theorem storage_accepts_oversized_file:
  "maxSize < file_size big_audio \<and> 10 * 1024 * 1024 < file_size big_audio
   \<and> POST_storage (storage_ready (Some (FormFile big_audio))) =
       (Inr (json_response 200
          [(''success'', JBool True),
           (''message'', JString ''File uploaded successfully''),
           (''fileName'', JString ''2025-01-02T03-04-05-678Z.webm''),
           (''fileUrl'', JString ''/recordings/2025-01-02T03-04-05-678Z.webm'')]),
        [ExistsSync ''/app/public/recordings'',
         WriteFileSync ''/app/public/recordings/2025-01-02T03-04-05-678Z.webm''
           (file_bytes big_audio)])"
  by (simp add: POST_storage_def POST_storage_try_def storage_save_def storage_ready_def
      big_audio_def file_size_def maxSize_def uploadDir_def storage_fileName_def
      replace_colon_dot_def Let_def)

lemma storage_writes:
  assumes "sw_form sw = Inr (Some (FormFile f))" and "prefix ''audio/'' (file_type f)"
    and "storage_works sw"
  shows "POST_storage sw =
           (Inr (json_response 200
              [(''success'', JBool True),
               (''message'', JString ''File uploaded successfully''),
               (''fileName'', JString (storage_fileName (sw_now sw))),
               (''fileUrl'', JString (''/recordings/'' @ storage_fileName (sw_now sw)))]),
            ExistsSync (uploadDir (sw_cwd sw))
              # (if sw_dir_exists sw then [] else [MkdirSync (uploadDir (sw_cwd sw))])
              @ [WriteFileSync (uploadDir (sw_cwd sw) @ ''/'' @ storage_fileName (sw_now sw))
                   (file_bytes f)])"
  using assms
  by (auto simp add: POST_storage_def POST_storage_try_def storage_save_def storage_works_def
      Let_def)

text \<open>
  C2, amended. The transcription variant answers a file larger than 25 MB with
  status 400 and has done nothing else, in particular no forward; the message is
  the size message for an audio file and the type message otherwise, the type
  being checked first. The storage variant has no size ceiling: given the same
  file, if it is an audio file and nothing fails on the host, it checks the
  upload directory, makes it if it is missing, writes all the bytes of the file
  and answers 200.
\<close>

theorem oversized_rejected_before_forward:
  assumes "rw_form w = Inr (Some (FormFile f))" and "maxSize < file_size f"
  shows "POST_transcribe w =
           (Inr (json_response 400
              [(''success'', JBool False),
               (''error'', JString (if prefix ''audio/'' (file_type f)
                  then ''File too large. Maximum size is 25MB.''
                  else ''Invalid file type. Only audio files are allowed.''))]), [])
       \<and> (sw_form sw = Inr (Some (FormFile f)) \<and> prefix ''audio/'' (file_type f)
            \<and> storage_works sw \<longrightarrow>
          POST_storage sw =
           (Inr (json_response 200
              [(''success'', JBool True),
               (''message'', JString ''File uploaded successfully''),
               (''fileName'', JString (storage_fileName (sw_now sw))),
               (''fileUrl'', JString (''/recordings/'' @ storage_fileName (sw_now sw)))]),
            ExistsSync (uploadDir (sw_cwd sw))
              # (if sw_dir_exists sw then [] else [MkdirSync (uploadDir (sw_cwd sw))])
              @ [WriteFileSync (uploadDir (sw_cwd sw) @ ''/'' @ storage_fileName (sw_now sw))
                   (file_bytes f)]))"
  using assms storage_writes [of sw f]
  by (simp add: POST_transcribe_def POST_transcribe_try_def)

theorem oversized_rejected_witness:
  "maxSize < file_size big_audio
   \<and> POST_transcribe (relay_ready (Some (FormFile big_audio)) (NetworkError ''fetch failed'')) =
       (Inr (json_response 400
          [(''success'', JBool False),
           (''error'', JString ''File too large. Maximum size is 25MB.'')]), [])
   \<and> prefix ''audio/'' (file_type big_audio)
   \<and> storage_works (storage_ready (Some (FormFile big_audio)))
   \<and> POST_storage (storage_ready (Some (FormFile big_audio))) =
       (Inr (json_response 200
          [(''success'', JBool True),
           (''message'', JString ''File uploaded successfully''),
           (''fileName'', JString ''2025-01-02T03-04-05-678Z.webm''),
           (''fileUrl'', JString ''/recordings/2025-01-02T03-04-05-678Z.webm'')]),
        [ExistsSync ''/app/public/recordings'',
         WriteFileSync ''/app/public/recordings/2025-01-02T03-04-05-678Z.webm''
           (file_bytes big_audio)])"
  using oversized_rejected_before_forward [of
      "relay_ready (Some (FormFile big_audio)) (NetworkError ''fetch failed'')" big_audio
      "storage_ready (Some (FormFile big_audio))"]
  by (simp add: relay_ready_def storage_ready_def storage_works_def big_audio_def
      file_size_def maxSize_def uploadDir_def storage_fileName_def replace_colon_dot_def)

text \<open>
  C4. When the forward fails downstream (the network call rejects, the external
  service answers outside 200..299, or a body that has to be parsed is
  malformed), the handler's promise resolves, it does not reject: the answer has
  status 500 and a body with \<open>success: false\<close>, an error string and the fixed
  message, and the handler has made the one forward and written one log line.
\<close>

theorem downstream_failure_answered_500:
  assumes "rw_form w = Inr (Some (FormFile f))"
    and "prefix ''audio/'' (file_type f)" and "file_size f \<le> maxSize"
    and "downstream_failure (rw_fetch w)"
  shows "\<exists>msg. POST_transcribe w =
           (Inr (json_response 500
              [(''success'', JBool False),
               (''error'', JString msg),
               (''message'', JString ''Failed to process audio file'')]),
            [Fetch PYTHON_API_URL f, ConsoleError ''Upload/Transcription error:''])"
proof (cases "rw_fetch w")
  case (NetworkError m)
  with assms show ?thesis
    by (auto simp add: POST_transcribe_def POST_transcribe_try_def relay_forward_def)
next
  case (HttpResponse st b)
  with assms show ?thesis
    by (cases b) (auto simp add: POST_transcribe_def POST_transcribe_try_def relay_forward_def)
qed

theorem downstream_failure_witness:
  "downstream_failure (HttpResponse 500 (Parsed (JObj (fmap_of_list [(''detail'', JString ''model crashed'')]))))
   \<and> POST_transcribe (relay_ready (Some (FormFile small_audio))
         (HttpResponse 500 (Parsed (JObj (fmap_of_list [(''detail'', JString ''model crashed'')]))))) =
       (Inr (json_response 500
              [(''success'', JBool False),
               (''error'', JString ''model crashed''),
               (''message'', JString ''Failed to process audio file'')]),
        [Fetch PYTHON_API_URL small_audio, ConsoleError ''Upload/Transcription error:''])"
  using downstream_failure_answered_500 [of
      "relay_ready (Some (FormFile small_audio))
         (HttpResponse 500 (Parsed (JObj (fmap_of_list [(''detail'', JString ''model crashed'')]))))"
      small_audio]
  by (simp add: relay_ready_def small_audio_def file_size_def maxSize_def ok_def
      POST_transcribe_def POST_transcribe_try_def relay_forward_def relay_failure_def
      error_text_def)

lemma envelope_lookup:
  "fmlookup (relay_envelope (JObj m)) k =
     (if k = ''message'' then Some (JString ''File transcribed successfully'')
      else case fmlookup m k of
             Some v \<Rightarrow> Some v
           | None \<Rightarrow> if k = ''success'' then Some (JBool True) else None)"
  by (auto simp add: relay_envelope_def fmdom_notD split: option.splits dest: fmdom_notI)

lemma relay_success:
  assumes "rw_form w = Inr (Some (FormFile f))"
    and "prefix ''audio/'' (file_type f)" and "file_size f \<le> maxSize"
    and "rw_fetch w = HttpResponse st (Parsed v)" and "ok st"
  shows "POST_transcribe w =
           (Inr (NextResponse_json (JObj (relay_envelope v)) 200), [Fetch PYTHON_API_URL f])"
  using assms by (simp add: POST_transcribe_def POST_transcribe_try_def relay_forward_def)

text \<open>
  C5, as stated, fails in two ways. When the external body carries a \<open>success\<close>
  field of its own, the answer \<open>{text: "hello", success: false}\<close> with status
  200 is relayed with \<open>success: false\<close>, not \<open>success: true\<close>. And a \<open>text\<close> that
  is a number beyond the range of a double, \<open>{"text": 1e400}\<close>, is parsed as
  \<open>Infinity\<close> and relayed as \<open>text: null\<close>.
\<close>

theorem text_with_failed_flag_relayed_as_failure:
  "ok 200 \<and> fmlookup hello_but_failed ''text'' = Some (JString ''hello'')
   \<and> POST_transcribe (relay_ready (Some (FormFile small_audio))
         (HttpResponse 200 (Parsed (JObj hello_but_failed)))) =
       (Inr (NextResponse_json (JObj (relay_envelope (JObj hello_but_failed))) 200),
        [Fetch PYTHON_API_URL small_audio])
   \<and> success_field (NextResponse_json (JObj (relay_envelope (JObj hello_but_failed))) 200)
       = Some (JBool False)
   \<and> success_field (NextResponse_json (JObj (relay_envelope (JObj hello_but_failed))) 200)
       \<noteq> Some (JBool True)
   \<and> fmlookup text_overflow ''text'' = Some (JNum ''Infinity'')
   \<and> POST_transcribe (relay_ready (Some (FormFile small_audio))
         (HttpResponse 200 (Parsed (JObj text_overflow)))) =
       (Inr (NextResponse_json (JObj (relay_envelope (JObj text_overflow))) 200),
        [Fetch PYTHON_API_URL small_audio])
   \<and> body_field (NextResponse_json (JObj (relay_envelope (JObj text_overflow))) 200) ''text''
       = Some JNull
   \<and> body_field (NextResponse_json (JObj (relay_envelope (JObj text_overflow))) 200) ''text''
       \<noteq> Some (JNum ''Infinity'')"
  by (simp add: relay_ready_def small_audio_def file_size_def maxSize_def ok_def
      hello_but_failed_def text_overflow_def POST_transcribe_def POST_transcribe_try_def
      relay_forward_def success_field_sent body_field_sent envelope_lookup non_finite_def)

text \<open>
  C5, amended. For an accepted upload and an external answer with a status in
  200..299 whose body is an object with a \<open>text\<close> field, the relay answers 200
  and has made the one forward. The response carries the \<open>text\<close> as JSON can
  carry it: unchanged when all its numbers are finite (so every string
  unchanged), with \<open>null\<close> for a number that is not. Its \<open>success\<close> is \<open>true\<close>
  when the body has no \<open>success\<close> field, and the body's own \<open>success\<close>, carried
  the same way, when it has one; its \<open>message\<close> is the relay's.
\<close>

theorem relayed_text_unchanged:
  assumes "rw_form w = Inr (Some (FormFile f))"
    and "prefix ''audio/'' (file_type f)" and "file_size f \<le> maxSize"
    and "rw_fetch w = HttpResponse st (Parsed (JObj m))" and "ok st"
    and "fmlookup m ''text'' = Some t"
  shows "POST_transcribe w =
           (Inr (NextResponse_json (JObj (relay_envelope (JObj m))) 200),
            [Fetch PYTHON_API_URL f])
       \<and> status (NextResponse_json (JObj (relay_envelope (JObj m))) 200) = 200
       \<and> body_field (NextResponse_json (JObj (relay_envelope (JObj m))) 200) ''text'' =
           Some (js_sent t)
       \<and> (finite_json t \<longrightarrow>
            body_field (NextResponse_json (JObj (relay_envelope (JObj m))) 200) ''text'' =
              Some t)
       \<and> success_field (NextResponse_json (JObj (relay_envelope (JObj m))) 200) =
           (case fmlookup m ''success'' of
              None \<Rightarrow> Some (JBool True)
            | Some v \<Rightarrow> Some (js_sent v))
       \<and> body_field (NextResponse_json (JObj (relay_envelope (JObj m))) 200) ''message'' =
           Some (JString ''File transcribed successfully'')"
proof (intro conjI)
  show "POST_transcribe w =
           (Inr (NextResponse_json (JObj (relay_envelope (JObj m))) 200),
            [Fetch PYTHON_API_URL f])"
    using assms relay_success [of w f st "JObj m"] by simp
  show "status (NextResponse_json (JObj (relay_envelope (JObj m))) 200) = 200"
    by (simp add: NextResponse_json_def)
  show "body_field (NextResponse_json (JObj (relay_envelope (JObj m))) 200) ''text'' =
           Some (js_sent t)"
    using assms(6) by (simp add: body_field_sent envelope_lookup)
  show "finite_json t \<longrightarrow>
            body_field (NextResponse_json (JObj (relay_envelope (JObj m))) 200) ''text'' =
              Some t"
    using assms(6) by (simp add: body_field_sent envelope_lookup sent_finite)
  show "success_field (NextResponse_json (JObj (relay_envelope (JObj m))) 200) =
           (case fmlookup m ''success'' of
              None \<Rightarrow> Some (JBool True)
            | Some v \<Rightarrow> Some (js_sent v))"
    by (simp add: success_field_sent envelope_lookup split: option.splits)
  show "body_field (NextResponse_json (JObj (relay_envelope (JObj m))) 200) ''message'' =
           Some (JString ''File transcribed successfully'')"
    by (simp add: body_field_sent envelope_lookup)
qed

theorem relayed_text_witness:
  "ok 200 \<and> fmlookup text_hello ''text'' = Some (JString ''hello'')
   \<and> finite_json (JString ''hello'')
   \<and> POST_transcribe (relay_ready (Some (FormFile small_audio))
         (HttpResponse 200 (Parsed (JObj text_hello)))) =
       (Inr (NextResponse_json (JObj (relay_envelope (JObj text_hello))) 200),
        [Fetch PYTHON_API_URL small_audio])
   \<and> status (NextResponse_json (JObj (relay_envelope (JObj text_hello))) 200) = 200
   \<and> body_field (NextResponse_json (JObj (relay_envelope (JObj text_hello))) 200) ''text''
       = Some (JString ''hello'')
   \<and> success_field (NextResponse_json (JObj (relay_envelope (JObj text_hello))) 200)
       = Some (JBool True)"
  using relayed_text_unchanged [of
      "relay_ready (Some (FormFile small_audio)) (HttpResponse 200 (Parsed (JObj text_hello)))"
      small_audio 200 text_hello "JString ''hello''"]
  by (simp add: relay_ready_def small_audio_def file_size_def maxSize_def ok_def
      text_hello_def)

text \<open>
  C10. The envelope is built as \<open>success: true\<close>, then the whole external body
  spread over it, then the relay's \<open>message\<close>. So for an accepted upload and an
  external answer in 200..299 whose body has a \<open>success\<close> field, the envelope's
  \<open>success\<close> is that field's value, where the same body without the field would
  get the relay's \<open>true\<close>; every other property of the body but \<open>message\<close> is
  in the envelope as it is in the body. The relay answers 200 and the response
  carries that \<open>success\<close> (as JSON can carry it: unchanged when its numbers are
  finite); with \<open>success: false\<close> in the body the relay answers 200 and
  \<open>success: false\<close>.
\<close>

theorem external_success_field_wins:
  assumes "rw_form w = Inr (Some (FormFile f))"
    and "prefix ''audio/'' (file_type f)" and "file_size f \<le> maxSize"
    and "rw_fetch w = HttpResponse st (Parsed (JObj m))" and "ok st"
    and "fmlookup m ''success'' = Some v"
  shows "POST_transcribe w =
           (Inr (NextResponse_json (JObj (relay_envelope (JObj m))) 200),
            [Fetch PYTHON_API_URL f])
       \<and> fmlookup (relay_envelope (JObj m)) ''success'' = Some v
       \<and> fmlookup (relay_envelope (JObj (fmdrop ''success'' m))) ''success'' = Some (JBool True)
       \<and> fmlookup (relay_envelope (JObj m)) ''message'' =
           Some (JString ''File transcribed successfully'')
       \<and> (\<forall>k. k \<noteq> ''success'' \<and> k \<noteq> ''message'' \<longrightarrow>
             fmlookup (relay_envelope (JObj m)) k = fmlookup m k)
       \<and> status (NextResponse_json (JObj (relay_envelope (JObj m))) 200) = 200
       \<and> success_field (NextResponse_json (JObj (relay_envelope (JObj m))) 200) =
           Some (js_sent v)
       \<and> (finite_json v \<longrightarrow>
            success_field (NextResponse_json (JObj (relay_envelope (JObj m))) 200) = Some v)"
proof (intro conjI)
  show "POST_transcribe w =
           (Inr (NextResponse_json (JObj (relay_envelope (JObj m))) 200),
            [Fetch PYTHON_API_URL f])"
    using assms relay_success [of w f st "JObj m"] by simp
  show "fmlookup (relay_envelope (JObj m)) ''success'' = Some v"
    using assms(6) by (simp add: envelope_lookup)
  show "fmlookup (relay_envelope (JObj (fmdrop ''success'' m))) ''success'' = Some (JBool True)"
    by (simp add: envelope_lookup)
  show "fmlookup (relay_envelope (JObj m)) ''message'' =
           Some (JString ''File transcribed successfully'')"
    by (simp add: envelope_lookup)
  show "\<forall>k. k \<noteq> ''success'' \<and> k \<noteq> ''message'' \<longrightarrow>
             fmlookup (relay_envelope (JObj m)) k = fmlookup m k"
    by (simp add: envelope_lookup split: option.splits)
  show "status (NextResponse_json (JObj (relay_envelope (JObj m))) 200) = 200"
    by (simp add: NextResponse_json_def)
  show "success_field (NextResponse_json (JObj (relay_envelope (JObj m))) 200) =
           Some (js_sent v)"
    using assms(6) by (simp add: success_field_sent envelope_lookup)
  show "finite_json v \<longrightarrow>
            success_field (NextResponse_json (JObj (relay_envelope (JObj m))) 200) = Some v"
    using assms(6) by (simp add: success_field_sent envelope_lookup sent_finite)
qed

theorem external_success_field_witness:
  "ok 200 \<and> fmlookup hello_but_failed ''success'' = Some (JBool False)
   \<and> finite_json (JBool False)
   \<and> POST_transcribe (relay_ready (Some (FormFile small_audio))
         (HttpResponse 200 (Parsed (JObj hello_but_failed)))) =
       (Inr (NextResponse_json (JObj (relay_envelope (JObj hello_but_failed))) 200),
        [Fetch PYTHON_API_URL small_audio])
   \<and> status (NextResponse_json (JObj (relay_envelope (JObj hello_but_failed))) 200) = 200
   \<and> success_field (NextResponse_json (JObj (relay_envelope (JObj hello_but_failed))) 200)
       = Some (JBool False)"
  using external_success_field_wins [of
      "relay_ready (Some (FormFile small_audio)) (HttpResponse 200 (Parsed (JObj hello_but_failed)))"
      small_audio 200 hello_but_failed "JBool False"]
  by (simp add: relay_ready_def small_audio_def file_size_def maxSize_def ok_def
      hello_but_failed_def)

text \<open>
  C6, as stated, fails for the storage variant: none of its failure bodies has a
  \<open>success\<close> field. A request without a file is answered 400 with the body
  \<open>{error: "No file uploaded"}\<close>.
\<close>


theorem storage_rejection_has_no_success_field:
  "POST_storage (storage_ready None) =
     (Inr \<lparr>status = 400, body = JObj (fmap_of_list [(''error'', JString ''No file uploaded'')])\<rparr>, [])
   \<and> fmlookup (fmap_of_list [(''error'', JString ''No file uploaded'')]) ''success'' = None
   \<and> fmlookup (fmap_of_list [(''error'', JString ''No file uploaded'')]) ''success''
       \<noteq> Some (JBool False)"
  by (simp add: POST_storage_def POST_storage_try_def storage_ready_def json_response_def NextResponse_json_def fmmap_fmupd)

lemma transcribe_try_shape:
  "POST_transcribe_try rw = (Inr r, effs) \<Longrightarrow>
     status r = 200 \<or> (status r = 400 \<and> success_field r = Some (JBool False) \<and> error_string r)"
  by (auto simp add: POST_transcribe_try_def relay_forward_def json_response_def NextResponse_json_def fmmap_fmupd
      success_field_def error_string_def
      split: sum.splits option.splits form_value.splits if_splits fetch_outcome.splits
        parsed_body.splits)

lemma storage_try_shape:
  "POST_storage_try sw = (Inr r, effs) \<Longrightarrow>
     status r = 200 \<or> (status r = 400 \<and> success_field r = None \<and> error_string r)"
  by (auto simp add: POST_storage_try_def storage_save_def Let_def json_response_def NextResponse_json_def fmmap_fmupd
      success_field_def error_string_def
      split: sum.splits option.splits form_value.splits if_splits)

text \<open>
  C6, amended. Both handlers always resolve to a response with status 200, 400
  or 500, and 500 exactly when the \<open>try\<close> block threw. Every response of the
  transcription variant other than 200 has a body with \<open>success: false\<close> and an
  \<open>error\<close> string; every response of the storage variant other than 200 has a
  body with an \<open>error\<close> string and no \<open>success\<close> field.
\<close>


theorem failure_envelopes:
  "(\<exists>r effs. POST_transcribe rw = (Inr r, effs)
      \<and> (status r = 200 \<or> status r = 400 \<or> status r = 500)
      \<and> (status r = 500) = threw (POST_transcribe_try rw)
      \<and> (status r \<noteq> 200 \<longrightarrow> success_field r = Some (JBool False) \<and> error_string r))
   \<and> (\<exists>r effs. POST_storage sw = (Inr r, effs)
      \<and> (status r = 200 \<or> status r = 400 \<or> status r = 500)
      \<and> (status r = 500) = threw (POST_storage_try sw)
      \<and> (status r \<noteq> 200 \<longrightarrow> success_field r = None \<and> error_string r))"
proof
  obtain x effs where t: "POST_transcribe_try rw = (x, effs)" by (cases "POST_transcribe_try rw")
  show "\<exists>r effs. POST_transcribe rw = (Inr r, effs)
      \<and> (status r = 200 \<or> status r = 400 \<or> status r = 500)
      \<and> (status r = 500) = threw (POST_transcribe_try rw)
      \<and> (status r \<noteq> 200 \<longrightarrow> success_field r = Some (JBool False) \<and> error_string r)"
  proof (cases x)
    case (Inl e)
    with t show ?thesis
      by (simp add: POST_transcribe_def threw_def json_response_def NextResponse_json_def fmmap_fmupd success_field_def
          error_string_def)
  next
    case (Inr r)
    with t transcribe_try_shape [of rw r effs] show ?thesis
      by (auto simp add: POST_transcribe_def threw_def)
  qed
next
  obtain x effs where t: "POST_storage_try sw = (x, effs)" by (cases "POST_storage_try sw")
  show "\<exists>r effs. POST_storage sw = (Inr r, effs)
      \<and> (status r = 200 \<or> status r = 400 \<or> status r = 500)
      \<and> (status r = 500) = threw (POST_storage_try sw)
      \<and> (status r \<noteq> 200 \<longrightarrow> success_field r = None \<and> error_string r)"
  proof (cases x)
    case (Inl e)
    with t show ?thesis
      by (simp add: POST_storage_def threw_def json_response_def NextResponse_json_def fmmap_fmupd success_field_def
          error_string_def)
  next
    case (Inr r)
    with t storage_try_shape [of sw r effs] show ?thesis
      by (auto simp add: POST_storage_def threw_def)
  qed
qed

theorem failure_envelopes_witness:
  "POST_transcribe (relay_ready None (NetworkError ''fetch failed'')) =
     (Inr (json_response 400
        [(''success'', JBool False), (''error'', JString ''No file uploaded'')]), [])
   \<and> status (json_response 400
        [(''success'', JBool False), (''error'', JString ''No file uploaded'')]) \<noteq> 200
   \<and> success_field (json_response 400
        [(''success'', JBool False), (''error'', JString ''No file uploaded'')]) = Some (JBool False)
   \<and> error_string (json_response 400
        [(''success'', JBool False), (''error'', JString ''No file uploaded'')])
   \<and> POST_storage (storage_ready None) =
     (Inr (json_response 400 [(''error'', JString ''No file uploaded'')]), [])
   \<and> success_field (json_response 400 [(''error'', JString ''No file uploaded'')]) = None
   \<and> error_string (json_response 400 [(''error'', JString ''No file uploaded'')])"
  using failure_envelopes [of "relay_ready None (NetworkError ''fetch failed'')" "storage_ready None"]
  by (simp add: POST_transcribe_def POST_transcribe_try_def relay_ready_def
      POST_storage_def POST_storage_try_def storage_ready_def json_response_def NextResponse_json_def fmmap_fmupd
      success_field_def error_string_def)

text \<open>
  C9, as stated, fails: the storage variant does not read the uploaded file's
  name. An upload named \<open>song.mp3\<close> is stored under the timestamp followed by
  \<open>.webm\<close>, not by \<open>.mp3\<close>.
\<close>


theorem stored_name_drops_original_extension:
  "upload_ext (file_name small_audio) = ''.mp3''
   \<and> POST_storage (storage_ready (Some (FormFile small_audio))) =
       (Inr (json_response 200
          [(''success'', JBool True),
           (''message'', JString ''File uploaded successfully''),
           (''fileName'', JString ''2025-01-02T03-04-05-678Z.webm''),
           (''fileUrl'', JString ''/recordings/2025-01-02T03-04-05-678Z.webm'')]),
        [ExistsSync ''/app/public/recordings'',
         WriteFileSync ''/app/public/recordings/2025-01-02T03-04-05-678Z.webm'' ''ID3''])
   \<and> ''2025-01-02T03-04-05-678Z.webm''
       \<noteq> replace_colon_dot ''2025-01-02T03:04:05.678Z'' @ upload_ext (file_name small_audio)"
  by (simp add: POST_storage_def POST_storage_try_def storage_save_def storage_ready_def
      small_audio_def uploadDir_def storage_fileName_def replace_colon_dot_def Let_def
      upload_ext_def substring_def)

lemma lastIndexOf_nonneg: "(0 \<le> lastIndexOf s c) = (c \<in> set s)"
  by (induction s) (auto simp add: Let_def)

lemma substring_lastIndexOf:
  "c \<in> set s \<Longrightarrow>
   substring s (lastIndexOf s c) = c # rev (takeWhile (\<lambda>x. x \<noteq> c) (rev s))"
proof (induction s)
  case Nil
  then show ?case by simp
next
  case (Cons x xs)
  show ?case
  proof (cases "c \<in> set xs")
    case True
    then have "0 \<le> lastIndexOf xs c" by (simp add: lastIndexOf_nonneg)
    then have "substring (x # xs) (lastIndexOf (x # xs) c) = substring xs (lastIndexOf xs c)"
      by (simp add: substring_def Let_def nat_add_distrib)
    moreover have "takeWhile (\<lambda>x. x \<noteq> c) (rev xs @ [x]) = takeWhile (\<lambda>x. x \<noteq> c) (rev xs)"
      using True by (intro takeWhile_append1 [of c]) auto
    ultimately show ?thesis using Cons.IH [OF True] by simp
  next
    case False
    with Cons.prems have xc: "x = c" by simp
    from False have "\<not> 0 \<le> lastIndexOf xs c" by (simp add: lastIndexOf_nonneg)
    then have "substring (x # xs) (lastIndexOf (x # xs) c) = x # xs"
      using xc by (simp add: substring_def Let_def)
    moreover have "takeWhile (\<lambda>x. x \<noteq> c) (rev xs @ [x]) = rev xs"
      using False xc by (subst takeWhile_append2) auto
    ultimately show ?thesis using xc by simp
  qed
qed

lemma replace_colon_dot_clean:
  "CHR '':'' \<notin> set (replace_colon_dot s) \<and> CHR ''.'' \<notin> set (replace_colon_dot s)"
  by (auto simp add: replace_colon_dot_def)

lemma storage_200:
  assumes "POST_storage w = (Inr r, effs)" and "status r = 200"
  shows "\<exists>f. sw_form w = Inr (Some (FormFile f))
          \<and> r = json_response 200
               [(''success'', JBool True),
                (''message'', JString ''File uploaded successfully''),
                (''fileName'', JString (replace_colon_dot (sw_now w) @ ''.webm'')),
                (''fileUrl'', JString (''/recordings/'' @ replace_colon_dot (sw_now w) @ ''.webm''))]
          \<and> effs \<noteq> []
          \<and> last effs = WriteFileSync
               (uploadDir (sw_cwd w) @ ''/'' @ replace_colon_dot (sw_now w) @ ''.webm'')
               (file_bytes f)"
  using assms
  by (auto simp add: POST_storage_def POST_storage_try_def storage_save_def Let_def
      json_response_def NextResponse_json_def fmmap_fmupd storage_fileName_def
      split: sum.splits option.splits form_value.splits if_splits)

text \<open>
  C9, amended. Whenever the storage variant answers 200 it has written the
  file's bytes, as its last effect, to the upload directory under the current
  timestamp with every colon and period replaced by a hyphen, followed by the
  fixed extension \<open>.webm\<close>, and it reports that name; the name has no colon and no
  period before the extension. The name the page gives the multipart part is the
  timestamp in the same form followed by the original extension (the name from
  its last period on), or by \<open>.mp3\<close> when the original name has no period.
\<close>


theorem persisted_name_is_timestamp_webm:
  assumes "POST_storage w = (Inr r, effs)" and "status r = 200"
  shows "(\<exists>f. sw_form w = Inr (Some (FormFile f))
          \<and> r = json_response 200
               [(''success'', JBool True),
                (''message'', JString ''File uploaded successfully''),
                (''fileName'', JString (replace_colon_dot (sw_now w) @ ''.webm'')),
                (''fileUrl'', JString (''/recordings/'' @ replace_colon_dot (sw_now w) @ ''.webm''))]
          \<and> effs \<noteq> []
          \<and> last effs = WriteFileSync
               (uploadDir (sw_cwd w) @ ''/'' @ replace_colon_dot (sw_now w) @ ''.webm'')
               (file_bytes f))
       \<and> CHR '':'' \<notin> set (replace_colon_dot (sw_now w))
       \<and> CHR ''.'' \<notin> set (replace_colon_dot (sw_now w))
       \<and> generateDateFilename now (upload_ext name) =
           replace_colon_dot now @
             (if CHR ''.'' \<in> set name
              then CHR ''.'' # rev (takeWhile (\<lambda>x. x \<noteq> CHR ''.'') (rev name))
              else ''.mp3'')"
  using storage_200 [OF assms] replace_colon_dot_clean [of "sw_now w"]
  by (simp add: generateDateFilename_def upload_ext_def substring_lastIndexOf)

theorem persisted_name_witness:
  "POST_storage (storage_ready (Some (FormFile small_audio))) =
     (Inr (json_response 200
          [(''success'', JBool True),
           (''message'', JString ''File uploaded successfully''),
           (''fileName'', JString ''2025-01-02T03-04-05-678Z.webm''),
           (''fileUrl'', JString ''/recordings/2025-01-02T03-04-05-678Z.webm'')]),
      [ExistsSync ''/app/public/recordings'',
       WriteFileSync ''/app/public/recordings/2025-01-02T03-04-05-678Z.webm'' ''ID3''])
   \<and> generateDateFilename ''2025-01-02T03:04:05.678Z'' (upload_ext ''my.song.wav'') =
       ''2025-01-02T03-04-05-678Z.wav''
   \<and> generateDateFilename ''2025-01-02T03:04:05.678Z'' (upload_ext ''memo'') =
       ''2025-01-02T03-04-05-678Z.mp3''"
  using persisted_name_is_timestamp_webm [of "storage_ready (Some (FormFile small_audio))"
      "json_response 200
          [(''success'', JBool True),
           (''message'', JString ''File uploaded successfully''),
           (''fileName'', JString ''2025-01-02T03-04-05-678Z.webm''),
           (''fileUrl'', JString ''/recordings/2025-01-02T03-04-05-678Z.webm'')]"
      "[ExistsSync ''/app/public/recordings'',
       WriteFileSync ''/app/public/recordings/2025-01-02T03-04-05-678Z.webm'' ''ID3'']"
      "''2025-01-02T03:04:05.678Z''" "''my.song.wav''"]
    persisted_name_is_timestamp_webm [of "storage_ready (Some (FormFile small_audio))"
      "json_response 200
          [(''success'', JBool True),
           (''message'', JString ''File uploaded successfully''),
           (''fileName'', JString ''2025-01-02T03-04-05-678Z.webm''),
           (''fileUrl'', JString ''/recordings/2025-01-02T03-04-05-678Z.webm'')]"
      "[ExistsSync ''/app/public/recordings'',
       WriteFileSync ''/app/public/recordings/2025-01-02T03-04-05-678Z.webm'' ''ID3'']"
      "''2025-01-02T03:04:05.678Z''" "''memo''"]
  by (simp add: POST_storage_def POST_storage_try_def storage_save_def storage_ready_def
      small_audio_def uploadDir_def storage_fileName_def replace_colon_dot_def Let_def
      json_response_def NextResponse_json_def fmmap_fmupd)

section \<open>Properties of the health probe\<close>

text \<open>
  C8 fails on the code at a timeout: the request is made once with
  \<open>timeout: 2000\<close>, but no listener is registered for the \<open>timeout\<close> event, so a
  probe whose request only times out has not exited, with code 1 or any other;
  a response that arrives after the timeout still decides the exit code.
\<close>

theorem probe_has_not_exited_after_timeout:
  "probe_requests = [options] \<and> timeout options = 2000 \<and> http_method options = ''GET''
   \<and> probe [Timeout] = None
   \<and> probe [Timeout, Timeout] = None
   \<and> probe [Timeout, Response 200] = Some 0"
  by (simp add: probe_requests_def options_def)

text \<open>
  The exit codes of the probe where it has a listener: 0 for a response with
  status 200, 1 for a response with any other status and for an error; a
  timeout is skipped.
\<close>

theorem probe_exit_codes:
  "probe (Response statusCode # es) = Some (if statusCode = 200 then 0 else 1)
   \<and> probe (RequestError err # es) = Some 1
   \<and> probe (Timeout # es) = probe es"
  by simp

section \<open>Properties of the page\<close>

text \<open>
  C1 fails on the code when Start is clicked twice before the microphone
  answers: both calls of \<open>startRecording\<close> resume and set an interval, and
  \<open>timerRef\<close> keeps only the second. With both intervals firing, the elapsed time
  reaches 300 after 150 seconds and the session is stopped with a blob and an
  object URL, but \<open>onstop\<close> clears only the interval in \<open>timerRef\<close>; the first
  interval fires again and the elapsed time becomes 301.
\<close>

theorem double_start_outruns_ceiling:
  "maxDuration = 300
   \<and> timers (run double_start initial_page) = {0, 1}
   \<and> timerRef (run double_start initial_page) = Some 1
   \<and> duration (run (double_start @ both_tick 150) initial_page) = 300
   \<and> isRecording (run (double_start @ both_tick 150) initial_page) = False
   \<and> blobRef (run (double_start @ both_tick 150) initial_page) = Some 1
   \<and> timers (run (double_start @ both_tick 150) initial_page) = {0}
   \<and> duration (run (double_start @ both_tick 150 @ [Tick 0]) initial_page) = 301"
  by (intro conjI; code_simp)

lemma inv_initial: "timer_inv initial_page"
  by (simp add: timer_inv_def initial_page_def maxDuration_def)

lemma inv_stop: "timer_inv s \<Longrightarrow> timer_inv (stopRecording s)"
  by (auto simp add: timer_inv_def stopRecording_def onstop_def setAudioURL_fresh_def
      audioURL_cleanup_def clearInterval_def Let_def split: option.splits if_splits)

lemma inv_tick: "timer_inv s \<Longrightarrow> t \<in> timers s \<Longrightarrow> timer_inv (tick s)"
  by (auto simp add: timer_inv_def tick_def stopRecording_def onstop_def setAudioURL_fresh_def
      audioURL_cleanup_def clearInterval_def Let_def maxDuration_def
      split: option.splits if_splits)

lemma inv_granted: "timer_inv s \<Longrightarrow> timers s = {} \<Longrightarrow> timer_inv (startRecording_granted s)"
  by (auto simp add: timer_inv_def startRecording_granted_def setInterval_def Let_def
      maxDuration_def)

lemma inv_pause: "timer_inv s \<Longrightarrow> timer_inv (pauseRecording s)"
  by (auto simp add: timer_inv_def pauseRecording_def clearInterval_def split: option.splits)

lemma inv_resume: "timer_inv s \<Longrightarrow> timer_inv (resumeRecording s)"
  by (auto simp add: timer_inv_def resumeRecording_def setInterval_def split: option.splits)

lemma inv_file: "timer_inv s \<Longrightarrow> timer_inv (handleFileUpload f now s)"
  by (auto simp add: timer_inv_def handleFileUpload_def setAudioURL_fresh_def
      audioURL_cleanup_def clearInterval_def Let_def maxDuration_def)

lemma inv_drop: "timer_inv s \<Longrightarrow> timer_inv (handleDrop fs now s)"
  using inv_file [of "s\<lparr>dragOver := False\<rparr>"]
  by (auto simp add: handleDrop_def Let_def timer_inv_def split: list.splits)

lemma inv_upload: "timer_inv s \<Longrightarrow> timer_inv (uploadRecording now s)"
  by (auto simp add: timer_inv_def uploadRecording_def)

lemma inv_answered: "timer_inv s \<Longrightarrow> timer_inv (relay_answered i a s)"
  by (auto simp add: timer_inv_def relay_answered_def Let_def
      split: relay_answer.splits json.splits relay_call.splits)

lemma inv_clear: "timer_inv s \<Longrightarrow> timer_inv (clearAll s)"
  by (auto simp add: timer_inv_def clearAll_def audioURL_cleanup_def clearInterval_def
      maxDuration_def)

lemma inv_step:
  assumes "timer_inv s" and "e \<noteq> MicGranted \<or> timers s = {}"
  shows "timer_inv (step e s)"
proof (cases e)
  case ClickStart
  with assms show ?thesis
    by (simp add: timer_inv_def startRecording_call_def)
next
  case MicDenied
  with assms show ?thesis
    by (simp add: timer_inv_def startRecording_denied_def)
qed (use assms in \<open>auto simp add: inv_stop inv_tick inv_granted inv_pause inv_resume inv_file
      inv_drop inv_upload inv_answered inv_clear\<close>)

lemma inv_run: "timer_inv s \<Longrightarrow> orderly es s \<Longrightarrow> timer_inv (run es s)"
  by (induction es arbitrary: s) (auto simp add: inv_step)

text \<open>
  The ceiling holds in every orderly run: when the microphone never answers
  while an interval is set, the elapsed time stays at or below 300 whatever
  else happens to the page.
\<close>

theorem elapsed_bounded_in_orderly_runs:
  assumes "orderly es initial_page"
  shows "duration (run es initial_page) \<le> 300"
  using inv_run [OF inv_initial assms] by (simp add: timer_inv_def maxDuration_def)

theorem elapsed_bounded_witness:
  "orderly one_session initial_page \<and> duration (run one_session initial_page) \<le> 300"
proof -
  have h: "orderly one_session initial_page" by code_simp
  from elapsed_bounded_in_orderly_runs [OF h] h show ?thesis by simp
qed

text \<open>
  C7 fails on the code for drag and drop: \<open>handleDrop\<close> has no look at
  \<open>isTranscribing\<close>. With one call of the upload route unanswered and the flag
  set, a second file picked in the file input starts nothing, but a dropped
  audio file starts a second call; the answer to the first then clears the flag
  while the second is still unanswered.
\<close>

theorem drop_starts_second_call_while_transcribing:
  "isTranscribing (run [FileChosen small_audio first_time] initial_page) = True
   \<and> in_flight (run [FileChosen small_audio first_time] initial_page) =
       [FileUpload ''2025-01-02T03-04-05-678Z.mp3'']
   \<and> in_flight (run [FileChosen small_audio first_time, FileChosen small_audio second_time]
        initial_page) = [FileUpload ''2025-01-02T03-04-05-678Z.mp3'']
   \<and> in_flight (run [FileChosen small_audio first_time, Drop [small_audio] second_time]
        initial_page) =
       [FileUpload ''2025-01-02T03-04-05-678Z.mp3'', FileUpload ''2025-01-02T03-04-06-000Z.mp3'']
   \<and> isTranscribing (run [FileChosen small_audio first_time, Drop [small_audio] second_time,
        RelayAnswered 0 Failed] initial_page) = False
   \<and> in_flight (run [FileChosen small_audio first_time, Drop [small_audio] second_time,
        RelayAnswered 0 Failed] initial_page) = [FileUpload ''2025-01-02T03-04-06-000Z.mp3'']"
  by (simp add: initial_page_def handleFileUpload_def handleDrop_def setAudioURL_fresh_def
      audioURL_cleanup_def clearInterval_def relay_answered_def Let_def maxBytes_def
      file_size_def small_audio_def first_time_def second_time_def generateDateFilename_def upload_ext_def
      substring_def replace_colon_dot_def)

text \<open>
  The flag where it is kept: while \<open>isTranscribing\<close> is set the Transcribe button
  and the file input do nothing; a call started by either sets the flag and
  adds one unanswered call; the answer to any unanswered call, whatever it is,
  clears the flag.
\<close>

theorem transcribing_flag_kept_by_button_and_input:
  "(isTranscribing s \<longrightarrow> step (ClickTranscribe now) s = s \<and> step (FileChosen f now) s = s)
   \<and> (\<not> isTranscribing s \<and> blobRef s \<noteq> None \<longrightarrow>
        isTranscribing (step (ClickTranscribe now) s)
        \<and> length (in_flight (step (ClickTranscribe now) s)) = Suc (length (in_flight s)))
   \<and> (\<not> isTranscribing s \<and> file_size f \<le> maxBytes \<longrightarrow>
        isTranscribing (step (FileChosen f now) s)
        \<and> length (in_flight (step (FileChosen f now) s)) = Suc (length (in_flight s)))
   \<and> (i < length (in_flight s) \<longrightarrow>
        \<not> isTranscribing (step (RelayAnswered i a) s)
        \<and> Suc (length (in_flight (step (RelayAnswered i a) s))) = length (in_flight s))"
  by (auto simp add: uploadRecording_def handleFileUpload_def setAudioURL_fresh_def
      audioURL_cleanup_def clearInterval_def relay_answered_def Let_def
      split: relay_answer.splits json.splits relay_call.splits)

theorem transcribing_flag_witness:
  "isTranscribing awaiting_answer
   \<and> step (ClickTranscribe second_time) awaiting_answer = awaiting_answer
   \<and> step (FileChosen small_audio second_time) awaiting_answer = awaiting_answer
   \<and> 0 < length (in_flight awaiting_answer)
   \<and> \<not> isTranscribing (step (RelayAnswered 0 Failed) awaiting_answer)"
proof -
  have flag: "isTranscribing awaiting_answer"
    by (simp add: awaiting_answer_def initial_page_def handleFileUpload_def
        setAudioURL_fresh_def audioURL_cleanup_def clearInterval_def Let_def maxBytes_def
        file_size_def small_audio_def)
  have call: "0 < length (in_flight awaiting_answer)"
    by (simp add: awaiting_answer_def initial_page_def handleFileUpload_def
        setAudioURL_fresh_def audioURL_cleanup_def clearInterval_def Let_def maxBytes_def
        file_size_def small_audio_def)
  from flag call
    transcribing_flag_kept_by_button_and_input
      [of awaiting_answer second_time small_audio 0 Failed]
  show ?thesis by blast
qed

end
